theory Spec2Isabelle
  imports Complex_Main "HOL-Library.List_Lexorder" "HOL-Library.Product_Lexorder"
    "HOL-Library.Multiset"
begin

section \<open>Strings, rows and exceptions\<close>

text \<open>
  A Python \<open>str\<close> is a sequence of Unicode code points, and it is modelled as the list
  of their numbers. Python compares two strings by code point, which is the lexicographic
  order of these lists. \<open>str s\<close> is the string of an ASCII literal.

  A CSV row is a \<open>dict[str, str]\<close>: a partial map from column names to values.
  An exception that leaves a function is a value of the type \<open>error\<close>, returned as
  \<open>Inl\<close>.
\<close>

type_synonym pystr = "nat list"

abbreviation str :: "string \<Rightarrow> pystr" where
  "str s \<equiv> map of_char s"

type_synonym row = "pystr \<rightharpoonup> pystr"

datatype error = KeyError | ValueError | OverflowError

text \<open>
  What the Python installation and the process supply and the repository does not
  define: the case mappings \<open>str.lower\<close> and \<open>str.upper\<close> of the Unicode database, its
  table of decimal digits (the digit value of a code point from 127 on, if it is a
  decimal digit), and the local time zone (the number of seconds local time is ahead of
  UTC at a POSIX time). They are parameters of the model.
\<close>

record platform =
  lower_str :: "pystr \<Rightarrow> pystr"
  upper_str :: "pystr \<Rightarrow> pystr"
  todecimal :: "nat \<Rightarrow> nat option"
  utcoffset :: "int \<Rightarrow> int"

text \<open>\<open>row.get(k, d)\<close> and the indexing \<open>row[k]\<close>, which raises on a missing key.\<close>

definition get_or :: "row \<Rightarrow> pystr \<Rightarrow> pystr \<Rightarrow> pystr" where
  "get_or r k d = (case r k of None \<Rightarrow> d | Some v \<Rightarrow> v)"

definition getitem :: "row \<Rightarrow> pystr \<Rightarrow> error + pystr" where
  "getitem r k = (case r k of None \<Rightarrow> Inl KeyError | Some v \<Rightarrow> Inr v)"

text \<open>\<open>a or b\<close> on strings: the empty string is the only false one.\<close>

definition py_or :: "pystr \<Rightarrow> pystr \<Rightarrow> pystr" where
  "py_or a b = (if a \<noteq> [] then a else b)"

text \<open>
  \<open>str.isspace\<close> of one code point, which \<open>str.strip()\<close> and \<open>str.split()\<close> use: the
  29 white-space code points of Unicode. Up to U+00A0 they are the tab, line feed,
  vertical tab, form feed, carriage return, the separators 28 to 31, the space, the next
  line and the no-break space.
\<close>

definition py_isspace :: "nat \<Rightarrow> bool" where
  "py_isspace c =
     (c \<in> set [0x09, 0x0A, 0x0B, 0x0C, 0x0D, 0x1C, 0x1D, 0x1E, 0x1F, 0x20, 0x85, 0xA0,
               0x1680, 0x2000, 0x2001, 0x2002, 0x2003, 0x2004, 0x2005, 0x2006, 0x2007,
               0x2008, 0x2009, 0x200A, 0x2028, 0x2029, 0x202F, 0x205F, 0x3000])"

definition strip :: "pystr \<Rightarrow> pystr" where
  "strip s = rev (dropWhile py_isspace (rev (dropWhile py_isspace s)))"

text \<open>The case mappings on the ASCII letters, every other code point unchanged.\<close>

definition ascii_lower :: "nat \<Rightarrow> nat" where
  "ascii_lower c = (if 65 \<le> c \<and> c \<le> 90 then c + 32 else c)"

definition ascii_upper :: "nat \<Rightarrow> nat" where
  "ascii_upper c = (if 97 \<le> c \<and> c \<le> 122 then c - 32 else c)"

text \<open>
  Two platforms for the examples, which are ASCII strings: on these their case mappings
  are those of Python and the table of digits is not read. Their time zones are UTC and
  two hours ahead of UTC.
\<close>

definition platform_utc :: platform where
  "platform_utc = \<lparr> lower_str = map ascii_lower, upper_str = map ascii_upper,
                     todecimal = (\<lambda>c. None), utcoffset = (\<lambda>t. 0) \<rparr>"

definition platform_plus2 :: platform where
  "platform_plus2 = \<lparr> lower_str = map ascii_lower, upper_str = map ascii_upper,
                       todecimal = (\<lambda>c. None), utcoffset = (\<lambda>t. 7200) \<rparr>"

section \<open>Identity resolver (data_utils.py)\<close>

text \<open>
  \<open>get_primary_game_id\<close> is annotated \<open>-> str | None\<close>, so its result is a
  \<open>pystr option\<close>; every \<open>return\<close> of the body returns a string. The last one is
  \<open>tic_id or itch_id or id_val\<close>.
\<close>

definition get_primary_game_id :: "platform \<Rightarrow> row \<Rightarrow> pystr option" where
  "get_primary_game_id P r =
     (let source = lower_str P (strip (get_or r (str ''source_with_bestversion'') []));
          tic_id = get_or r (str ''tic_id'') [];
          itch_id = get_or r (str ''itch_id'') [];
          id_val = get_or r (str ''id'') [];
          preferred_id =
            (if source = str ''tic80com'' \<or> source = [] then tic_id
             else if source = str ''itch'' then itch_id
             else id_val)
      in if preferred_id \<noteq> [] then Some preferred_id
         else Some (py_or tic_id (py_or itch_id id_val)))"

text \<open>The text an f-string inserts for a \<open>str | None\<close>.\<close>

definition format_id :: "pystr option \<Rightarrow> pystr" where
  "format_id g = (case g of None \<Rightarrow> str ''None'' | Some s \<Rightarrow> s)"

section \<open>Numbers: \<open>float(str)\<close>, \<open>int(float)\<close>, \<open>str(int)\<close>\<close>

text \<open>
  A Python \<open>float\<close> is an IEEE 754 binary64 value: a finite one is modelled by the
  rational number it denotes (the sign of a zero is dropped: nothing here reads it), and
  the two infinities and the NaN are values of their own.
\<close>

datatype pyfloat = Finite rat | PosInf | NegInf | NaN

text \<open>The truth value of a float, as in \<open>if upd_ts:\<close>: only zero is false.\<close>

definition float_truthy :: "pyfloat \<Rightarrow> bool" where
  "float_truthy x = (x \<noteq> Finite 0)"

text \<open>\<open>a < b\<close> on floats: every comparison with a NaN is false.\<close>

fun float_less :: "pyfloat \<Rightarrow> pyfloat \<Rightarrow> bool" where
  "float_less NaN _ = False"
| "float_less _ NaN = False"
| "float_less (Finite a) (Finite b) = (a < b)"
| "float_less (Finite a) PosInf = True"
| "float_less (Finite a) NegInf = False"
| "float_less PosInf _ = False"
| "float_less NegInf NegInf = False"
| "float_less NegInf _ = True"

text \<open>The builtin \<open>min(a, b)\<close>: \<open>b\<close> when \<open>b < a\<close>, else \<open>a\<close>.\<close>

definition py_min :: "pyfloat \<Rightarrow> pyfloat \<Rightarrow> pyfloat" where
  "py_min a b = (if float_less b a then b else a)"

definition pow2 :: "int \<Rightarrow> rat" where
  "pow2 p = (if 0 \<le> p then 2 ^ nat p else 1 / 2 ^ nat (- p))"

text \<open>The number of binary digits of a natural number, \<open>int.bit_length\<close>.\<close>

fun bit_length :: "nat \<Rightarrow> nat" where
  "bit_length n = (if n = 0 then 0 else Suc (bit_length (n div 2)))"

declare bit_length.simps [simp del]

text \<open>
  \<open>floor_log2 n d\<close> is the integer \<open>e\<close> with \<open>2^e \<le> n / d < 2^(e + 1)\<close>, for
  positive \<open>n\<close> and \<open>d\<close>: the difference of the bit lengths, or one less.
\<close>

definition floor_log2 :: "nat \<Rightarrow> nat \<Rightarrow> int" where
  "floor_log2 n d =
     (let k = int (bit_length n) - int (bit_length d)
      in if (if 0 \<le> k then 2 ^ nat k * d \<le> n else d \<le> n * 2 ^ nat (- k)) then k else k - 1)"

text \<open>The quotient \<open>n / d\<close> rounded to the nearest natural number, a tie to the even one.\<close>

definition round_half_even :: "nat \<Rightarrow> nat \<Rightarrow> nat" where
  "round_half_even n d =
     (let q = n div d; r = n mod d
      in if 2 * r < d then q
         else if d < 2 * r then q + 1
         else if even q then q else q + 1)"

text \<open>
  \<open>round_binary64 neg n d\<close> is the binary64 value nearest to \<open>n / d\<close> (\<open>d\<close> positive),
  negated when \<open>neg\<close>: 53 significant bits, the exponent of the last bit not below
  \<open>-1074\<close> (subnormal numbers), a tie to the even significand, and an infinity when the
  rounded magnitude reaches \<open>2^1024\<close>.
\<close>

definition round_binary64 :: "bool \<Rightarrow> nat \<Rightarrow> nat \<Rightarrow> pyfloat" where
  "round_binary64 neg n d =
     (if n = 0 then Finite 0
      else
        let p = max (floor_log2 n d) (- 1022) - 52;
            m = (if 0 \<le> p then round_half_even n (d * 2 ^ nat p)
                 else round_half_even (n * 2 ^ nat (- p)) d);
            v = of_nat m * pow2 p
        in if 2 ^ 1024 \<le> v then (if neg then NegInf else PosInf)
           else Finite (if neg then - v else v))"

subsection \<open>The text of a number\<close>

definition is_digit :: "nat \<Rightarrow> bool" where
  "is_digit c = (48 \<le> c \<and> c \<le> 57)"

definition digits_val :: "pystr \<Rightarrow> nat" where
  "digits_val s = foldl (\<lambda>n c. 10 * n + (c - 48)) 0 s"

text \<open>
  \<open>float\<close> first rewrites a string that is not all ASCII: a code point below 127 stays,
  a white-space one becomes a space, a decimal digit of any script becomes the ASCII
  digit, and the text ends with a question mark at the first code point that is none of
  these. A string that is all ASCII is taken as it is.
\<close>

fun transform_decimal_and_space :: "platform \<Rightarrow> pystr \<Rightarrow> pystr" where
  "transform_decimal_and_space P [] = []"
| "transform_decimal_and_space P (c # cs) =
     (if c < 127 then c # transform_decimal_and_space P cs
      else if py_isspace c then 32 # transform_decimal_and_space P cs
      else case todecimal P c of
             None \<Rightarrow> [63]
           | Some d \<Rightarrow> (48 + d) # transform_decimal_and_space P cs)"

definition to_ascii :: "platform \<Rightarrow> pystr \<Rightarrow> pystr" where
  "to_ascii P s = (if list_all (\<lambda>c. c < 128) s then s else transform_decimal_and_space P s)"

text \<open>
  Underscores in a numeric literal: each must stand between two digits. The result is the
  text without them, \<open>None\<close> when one is misplaced. The first argument is the previous
  character, if any.
\<close>

fun remove_underscores :: "nat option \<Rightarrow> pystr \<Rightarrow> pystr option" where
  "remove_underscores prev [] = (if prev = Some 95 then None else Some [])"
| "remove_underscores prev (c # cs) =
     (if c = 95 then
        (case prev of
           None \<Rightarrow> None
         | Some p \<Rightarrow> if is_digit p then remove_underscores (Some c) cs else None)
      else if prev = Some 95 \<and> \<not> is_digit c then None
      else map_option ((#) c) (remove_underscores (Some c) cs))"

text \<open>The white space \<open>float\<close> skips at both ends of the ASCII text: that of C's \<open>isspace\<close>.\<close>

definition c_isspace :: "nat \<Rightarrow> bool" where
  "c_isspace c = (c \<in> set [0x09, 0x0A, 0x0B, 0x0C, 0x0D, 0x20])"

definition c_strip :: "pystr \<Rightarrow> pystr" where
  "c_strip s = rev (dropWhile c_isspace (rev (dropWhile c_isspace s)))"

text \<open>An optional sign: whether it is a minus, and the rest.\<close>

fun split_sign :: "pystr \<Rightarrow> bool \<times> pystr" where
  "split_sign (c # cs) =
     (if c = 45 then (True, cs) else if c = 43 then (False, cs) else (False, c # cs))"
| "split_sign [] = (False, [])"

text \<open>
  An unsigned decimal literal: digits, an optional point and digits (one digit at least
  on either side of the point), an optional exponent \<open>e\<close> or \<open>E\<close> with an optional
  sign and at least one digit. The result is \<open>(m, e)\<close> for the value \<open>m * 10^e\<close>.
\<close>

definition parse_decimal :: "pystr \<Rightarrow> (nat \<times> int) option" where
  "parse_decimal s =
     (let ip = takeWhile is_digit s;
          r1 = dropWhile is_digit s;
          r1' = (case r1 of c # t \<Rightarrow> if c = 46 then Some t else None | [] \<Rightarrow> None);
          fp = (case r1' of Some t \<Rightarrow> takeWhile is_digit t | None \<Rightarrow> []);
          r2 = (case r1' of Some t \<Rightarrow> dropWhile is_digit t | None \<Rightarrow> r1);
          m = digits_val (ip @ fp)
      in if ip = [] \<and> fp = [] then None
         else case r2 of
           [] \<Rightarrow> Some (m, - int (length fp))
         | c # t \<Rightarrow>
             if c = 101 \<or> c = 69 then
               (case split_sign t of
                  (eneg, ed) \<Rightarrow>
                    if ed \<noteq> [] \<and> list_all is_digit ed
                    then Some (m, (if eneg then - int (digits_val ed) else int (digits_val ed))
                                  - int (length fp))
                    else None)
             else None)"

text \<open>
  \<open>float(s)\<close> for a string: \<open>None\<close> is the \<open>ValueError\<close>, the only exception it
  raises on a string. A literal too large for a binary64 gives an infinity, not an error.
\<close>

definition py_float :: "platform \<Rightarrow> pystr \<Rightarrow> pyfloat option" where
  "py_float P s =
     (let a = to_ascii P s
      in case (if 95 \<in> set a then remove_underscores None a else Some a) of
           None \<Rightarrow> None
         | Some t \<Rightarrow>
             (case split_sign (c_strip t) of
                (neg, body) \<Rightarrow>
                  if map ascii_lower body = str ''inf'' \<or> map ascii_lower body = str ''infinity''
                    then Some (if neg then NegInf else PosInf)
                  else if map ascii_lower body = str ''nan'' then Some NaN
                  else case parse_decimal body of
                     None \<Rightarrow> None
                   | Some (m, e) \<Rightarrow>
                       Some (if 0 \<le> e then round_binary64 neg (m * 10 ^ nat e) 1
                             else round_binary64 neg m (10 ^ nat (- e)))))"

text \<open>
  \<open>int(x)\<close> for a float truncates toward zero; it raises \<open>ValueError\<close> on a NaN and
  \<open>OverflowError\<close> on an infinity.
\<close>

definition py_int :: "pyfloat \<Rightarrow> error + int" where
  "py_int x =
     (case x of
        NaN \<Rightarrow> Inl ValueError
      | PosInf \<Rightarrow> Inl OverflowError
      | NegInf \<Rightarrow> Inl OverflowError
      | Finite q \<Rightarrow> Inr (if 0 \<le> q then \<lfloor>q\<rfloor> else - \<lfloor>- q\<rfloor>))"

text \<open>\<open>str(n)\<close> for an integer: the decimal digits, after a minus sign when negative.\<close>

fun str_nat :: "nat \<Rightarrow> pystr" where
  "str_nat n = (if n < 10 then [48 + n] else str_nat (n div 10) @ [48 + n mod 10])"

declare str_nat.simps [simp del]

definition str_int :: "int \<Rightarrow> pystr" where
  "str_int i = (if i < 0 then 45 # str_nat (nat (- i)) else str_nat (nat i))"

text \<open>
  \<open>normalize_id\<close>: the \<open>try\<close> catches \<open>ValueError\<close> (and \<open>TypeError\<close>, which a string never
  gives), so the \<open>OverflowError\<close> of \<open>int\<close> on an infinity leaves the function.
\<close>

definition normalize_id :: "platform \<Rightarrow> pystr \<Rightarrow> error + pystr" where
  "normalize_id P id_str =
     (if id_str = [] then Inr id_str
      else
        let id_str = strip id_str
        in case py_float P id_str of
             None \<Rightarrow> Inr id_str
           | Some x \<Rightarrow>
               (case py_int x of
                  Inl ValueError \<Rightarrow> Inr id_str
                | Inl e \<Rightarrow> Inl e
                | Inr n \<Rightarrow> Inr (str_int n)))"

section \<open>Local dates: \<open>datetime.fromtimestamp(x).strftime('%Y-%m-%d')\<close>\<close>

text \<open>
  \<open>civil_from_days z\<close> is the year, month and day of the proleptic Gregorian calendar
  \<open>z\<close> days after 1970-01-01.
\<close>

definition civil_from_days :: "int \<Rightarrow> int \<times> int \<times> int" where
  "civil_from_days z0 =
     (let z = z0 + 719468;
          era = z div 146097;
          doe = z mod 146097;
          yoe = (doe - doe div 1460 + doe div 36524 - doe div 146096) div 365;
          doy = doe - (365 * yoe + yoe div 4 - yoe div 100);
          mp = (5 * doy + 2) div 153;
          d = doy - (153 * mp + 2) div 5 + 1;
          m = (if mp < 10 then mp + 3 else mp - 9);
          y = yoe + era * 400 + (if m \<le> 2 then 1 else 0)
      in (y, m, d))"

text \<open>A natural number in decimal, padded with zeros on the left to a width.\<close>

definition zero_pad :: "nat \<Rightarrow> nat \<Rightarrow> pystr" where
  "zero_pad w n = replicate (w - length (str_nat n)) 48 @ str_nat n"

text \<open>
  \<open>fromtimestamp\<close> without a \<open>tz\<close> argument gives the local time of the process. The
  float is rounded to microseconds, a tie to the even one. A NaN raises \<open>ValueError\<close> and
  an infinity \<open>OverflowError\<close>; a year outside 1 to 9999 raises too (\<open>ValueError\<close>
  here; the platform may raise \<open>OverflowError\<close> or \<open>OSError\<close> for the largest
  magnitudes), and so does an instant whose local time one day earlier is before the
  year 1 (the conversion probes that instant to detect a repeated hour). \<open>%Y\<close> is the
  year as the C library writes it: without padding (glibc), so with four digits from the
  year 1000 on.
\<close>

definition fromtimestamp_strftime :: "platform \<Rightarrow> pyfloat \<Rightarrow> error + pystr" where
  "fromtimestamp_strftime P x =
     (case x of
        NaN \<Rightarrow> Inl ValueError
      | PosInf \<Rightarrow> Inl OverflowError
      | NegInf \<Rightarrow> Inl OverflowError
      | Finite q \<Rightarrow>
          let us = (if 0 \<le> q
                    then int (round_half_even (nat (fst (quotient_of q)) * 1000000)
                                (nat (snd (quotient_of q))))
                    else - int (round_half_even (nat (- fst (quotient_of q)) * 1000000)
                                (nat (snd (quotient_of q)))));
              secs = us div 1000000;
              days = (secs + utcoffset P secs) div 86400;
              probe = (secs - 86400 + utcoffset P (secs - 86400)) div 86400
          in case civil_from_days days of
               (y, m, d) \<Rightarrow>
                 if y < 1 \<or> 9999 < y \<or> fst (civil_from_days probe) < 1 then Inl ValueError
                 else Inr (str_nat (nat y) @ str ''-'' @ zero_pad 2 (nat m) @ str ''-''
                           @ zero_pad 2 (nat d)))"

section \<open>Categories (data_utils.py) and file names (filename_utils.py)\<close>

definition get_rom_category :: "row \<Rightarrow> pystr" where
  "get_rom_category r =
     (let rom_source = py_or (get_or r (str ''source_with_bestversion'') (str ''tic80com''))
                             (str ''tic80com'')
      in py_or (get_or r (str ''rom_category'') [])
           (if rom_source = str ''itch'' then str ''Itch''
            else if rom_source = str ''tic80com'' then get_or r (str ''tic_category'') (str ''Games'')
            else str ''Unclassified''))"

text \<open>\<open>FORBIDDEN_CHARS = '<>:"/\\|?*'\<close> (config.py): the double quote is 34, the backslash 92.\<close>

definition FORBIDDEN_CHARS :: pystr where
  "FORBIDDEN_CHARS = str ''<>:'' @ [34] @ str ''/'' @ [92] @ str ''|?*''"

text \<open>\<open>s.split()\<close>: the maximal runs of characters that are not white space.\<close>

fun split_ws :: "pystr \<Rightarrow> pystr \<Rightarrow> pystr list" where
  "split_ws w [] = (if w = [] then [] else [w])"
| "split_ws w (c # cs) =
     (if py_isspace c then (if w = [] then split_ws [] cs else w # split_ws [] cs)
      else split_ws (w @ [c]) cs)"

text \<open>\<open>sep.join(ws)\<close>.\<close>

fun join :: "pystr \<Rightarrow> pystr list \<Rightarrow> pystr" where
  "join sep [] = []"
| "join sep [w] = w"
| "join sep (w # v # ws) = w @ sep @ join sep (v # ws)"

definition create_safe_filename :: "pystr \<Rightarrow> pystr" where
  "create_safe_filename name =
     join (str '' '') (split_ws [] (filter (\<lambda>c. c \<notin> set FORBIDDEN_CHARS) name))"

record FileInfo =
  pre_filename :: pystr
  gamename :: pystr
  rom_filename :: pystr
  image_filename :: pystr

text \<open>
  The pattern \<open>x = None; if s: try: x = float(s) except (ValueError, TypeError): pass\<close>
  on the value \<open>s\<close> of \<open>row.get(key)\<close>.
\<close>

definition parse_ts :: "platform \<Rightarrow> pystr option \<Rightarrow> pyfloat option" where
  "parse_ts P s = (case s of None \<Rightarrow> None | Some t \<Rightarrow> if t = [] then None else py_float P t)"

text \<open>The truth value of a \<open>float | None\<close>.\<close>

definition ts_truthy :: "pyfloat option \<Rightarrow> bool" where
  "ts_truthy t = (case t of None \<Rightarrow> False | Some x \<Rightarrow> float_truthy x)"

text \<open>
  A timestamp field as the date selection uses it: the number it parses to, and nothing
  when the field is missing or empty, is not a number, or is the number zero.
\<close>

definition usable_ts :: "platform \<Rightarrow> row \<Rightarrow> pystr \<Rightarrow> pyfloat option" where
  "usable_ts P r k =
     (case parse_ts P (r k) of None \<Rightarrow> None | Some x \<Rightarrow> if x = Finite 0 then None else Some x)"

text \<open>\<open>row.get("tic_upd_date") or row.get("tic_pub_date", "")\<close>.\<close>

definition tic_dates :: "row \<Rightarrow> pystr" where
  "tic_dates r = py_or (get_or r (str ''tic_upd_date'') []) (get_or r (str ''tic_pub_date'') [])"

text \<open>
  The first step of the date selection (lines 65 to 73): the date of
  \<open>overwrite_upd_timestamp\<close>, or the empty string.
\<close>

definition overwrite_date :: "platform \<Rightarrow> row \<Rightarrow> error + pystr" where
  "overwrite_date P r =
     (let upd_ts = parse_ts P (r (str ''overwrite_upd_timestamp''))
      in case upd_ts of
           None \<Rightarrow> Inr []
         | Some x \<Rightarrow> if float_truthy x then fromtimestamp_strftime P x else Inr [])"

text \<open>The timestamp the third step selects (lines 79 to 110), if any.\<close>

definition itch_selected_ts :: "platform \<Rightarrow> row \<Rightarrow> pyfloat option" where
  "itch_selected_ts P r =
     (let lastmod_ts = parse_ts P (r (str ''itch_lastmodified_timestamp''));
          upd_ts = parse_ts P (r (str ''itch_upd_timestamp''))
      in if ts_truthy upd_ts \<and> ts_truthy lastmod_ts then
           (case (upd_ts, lastmod_ts) of
              (Some u, Some l) \<Rightarrow> Some (py_min u l)
            | _ \<Rightarrow> None)
         else if ts_truthy upd_ts then upd_ts
         else if ts_truthy lastmod_ts then lastmod_ts
         else parse_ts P (r (str ''itch_pub_timestamp'')))"

text \<open>The third step (lines 78 to 115).\<close>

definition itch_date :: "platform \<Rightarrow> row \<Rightarrow> error + pystr" where
  "itch_date P r =
     (let selected_ts = itch_selected_ts P r
      in case selected_ts of
           None \<Rightarrow> Inr (tic_dates r)
         | Some x \<Rightarrow> if float_truthy x then fromtimestamp_strftime P x else Inr (tic_dates r))"

text \<open>The three steps in sequence (lines 63 to 115): the value of \<open>update_date\<close>.\<close>

definition select_update_date :: "platform \<Rightarrow> row \<Rightarrow> error + pystr" where
  "select_update_date P r =
     (case overwrite_date P r of
        Inl e \<Rightarrow> Inl e
      | Inr d1 \<Rightarrow>
          let d2 = (if d1 = [] \<and> get_or r (str ''source_with_bestversion'') (str ''tic80com'')
                                  = str ''tic80com''
                    then tic_dates r else d1)
          in if d2 = [] then itch_date P r else Inr d2)"

text \<open>The suffix of step 2 of the naming (lines 122 to 131).\<close>

definition category_suffix :: "bool \<Rightarrow> pystr \<Rightarrow> pystr \<Rightarrow> pystr" where
  "category_suffix filename_category_parenthesis rom_folder_organization game_category =
     (if rom_folder_organization = str ''single'' \<and> filename_category_parenthesis
         \<and> game_category \<noteq> str ''Games''
      then
        let suffix_name =
              (if game_category = str ''Tools'' then str ''Tool''
               else if game_category \<noteq> str ''Demoscene'' \<and> game_category \<noteq> []
                       \<and> last game_category = 115
                 then butlast game_category
               else game_category)
        in str '' ('' @ suffix_name @ str '')''
      else [])"

definition apply_case :: "platform \<Rightarrow> pystr \<Rightarrow> pystr \<Rightarrow> pystr" where
  "apply_case P filename_case s =
     (if filename_case = str ''uppercase'' then upper_str P s
      else if filename_case = str ''lowercase'' then lower_str P s
      else s)"

definition generate_filename_and_gamename ::
  "platform \<Rightarrow> row \<Rightarrow> bool \<Rightarrow> bool \<Rightarrow> bool \<Rightarrow> pystr \<Rightarrow> pystr \<Rightarrow> error + FileInfo" where
  "generate_filename_and_gamename P r use_custom_filenames use_custom_gamenames
       filename_category_parenthesis filename_case rom_folder_organization =
     (let game_id = get_primary_game_id P r;
          orig_name = py_or (get_or r (str ''name_original_reference'') [])
                            (get_or r (str ''itch_titlename'') []);
          overwrite_name = strip (get_or r (str ''name_overwrite'') []);
          game_category = get_rom_category r
      in case select_update_date P r of
           Inl e \<Rightarrow> Inl e
         | Inr update_date \<Rightarrow>
             let base_filename_name =
                   (if use_custom_filenames \<and> overwrite_name \<noteq> [] then overwrite_name
                    else orig_name);
                 game_name =
                   (if use_custom_gamenames \<and> overwrite_name \<noteq> [] then overwrite_name
                    else orig_name);
                 pre = base_filename_name
                       @ category_suffix filename_category_parenthesis rom_folder_organization
                           game_category;
                 pre = create_safe_filename (apply_case P filename_case pre);
                 base_filename_name =
                   create_safe_filename (apply_case P filename_case base_filename_name);
                 game_name = create_safe_filename game_name
             in Inr \<lparr> pre_filename = pre,
                      gamename = game_name,
                      rom_filename = pre @ str '' - '' @ format_id game_id @ str '' (''
                                     @ update_date @ str '').tic'',
                      image_filename = base_filename_name @ str '' - '' @ format_id game_id
                                       @ str ''.png'' \<rparr>)"

text \<open>The columns of a row that the naming reads.\<close>

definition naming_fields :: "pystr list" where
  "naming_fields =
     [str ''source_with_bestversion'', str ''tic_id'', str ''itch_id'', str ''id'',
      str ''name_original_reference'', str ''itch_titlename'', str ''name_overwrite'',
      str ''rom_category'', str ''tic_category'', str ''overwrite_upd_timestamp'',
      str ''tic_upd_date'', str ''tic_pub_date'', str ''itch_lastmodified_timestamp'',
      str ''itch_upd_timestamp'', str ''itch_pub_timestamp'']"

section \<open>Record store (csv_manager.py)\<close>

text \<open>
  The database is a \<open>dict\<close> from game id to row. A \<open>dict\<close> keeps its keys in the
  order of their first insertion, and \<open>database.values()\<close> lists the rows in that order,
  so the database is an association list with distinct keys. \<open>db[k] = v\<close> replaces the
  value of a key in place and appends a new key.
\<close>

type_synonym database = "(pystr \<times> row) list"

fun dict_set :: "pystr \<Rightarrow> row \<Rightarrow> database \<Rightarrow> database" where
  "dict_set k v [] = [(k, v)]"
| "dict_set k v (p # ps) = (if fst p = k then (k, v) # ps else p # dict_set k v ps)"

text \<open>The two warnings \<open>load_csv_database\<close> prints, the second with the line of the row.\<close>

datatype warning = Duplicate_game_id pystr | Row_skipped nat

text \<open>\<open>row[k] = normalize_id(row[k])\<close>: the indexing raises on a missing column.\<close>

definition normalize_field :: "platform \<Rightarrow> pystr \<Rightarrow> row \<Rightarrow> error + row" where
  "normalize_field P k r =
     (case getitem r k of
        Inl e \<Rightarrow> Inl e
      | Inr v \<Rightarrow> (case normalize_id P v of Inl e \<Rightarrow> Inl e | Inr v' \<Rightarrow> Inr (r(k \<mapsto> v'))))"

text \<open>The three assignments at the head of the loop body (lines 46 to 48).\<close>

definition normalize_row :: "platform \<Rightarrow> row \<Rightarrow> error + row" where
  "normalize_row P r =
     (case normalize_field P (str ''id'') r of
        Inl e \<Rightarrow> Inl e
      | Inr r1 \<Rightarrow>
          (case normalize_field P (str ''itch_id'') r1 of
             Inl e \<Rightarrow> Inl e
           | Inr r2 \<Rightarrow> normalize_field P (str ''tic_id'') r2))"

text \<open>The rest of the loop body (lines 50 to 57), for the row of index \<open>i\<close>.\<close>

definition store_row ::
  "platform \<Rightarrow> nat \<Rightarrow> row \<Rightarrow> database \<times> warning list \<Rightarrow> database \<times> warning list" where
  "store_row P i r st =
     (case st of
        (db, msgs) \<Rightarrow>
          (case get_primary_game_id P r of
             None \<Rightarrow> (db, msgs @ [Row_skipped (i + 2)])
           | Some game_id \<Rightarrow>
               if game_id \<noteq> [] then
                 (dict_set game_id r db,
                  if game_id \<in> set (map fst db) then msgs @ [Duplicate_game_id game_id] else msgs)
               else (db, msgs @ [Row_skipped (i + 2)])))"

text \<open>The loop over \<open>enumerate(reader)\<close>, from the index \<open>i\<close> on.\<close>

fun load_rows ::
  "platform \<Rightarrow> nat \<Rightarrow> row list \<Rightarrow> database \<times> warning list \<Rightarrow> error + database \<times> warning list"
  where
  "load_rows P i [] st = Inr st"
| "load_rows P i (r # rs) st =
     (case normalize_row P r of
        Inl e \<Rightarrow> Inl e
      | Inr r' \<Rightarrow> load_rows P (Suc i) rs (store_row P i r' st))"

text \<open>The loop on rows whose three assignments have been made: the rest of each body.\<close>

fun store_rows ::
  "platform \<Rightarrow> nat \<Rightarrow> row list \<Rightarrow> database \<times> warning list \<Rightarrow> database \<times> warning list"
  where
  "store_rows P i [] st = st"
| "store_rows P i (r # rs) st = store_rows P (Suc i) rs (store_row P i r st)"

text \<open>
  What \<open>load_csv_database\<close> reads: \<open>None\<close> when the file does not exist, else the
  \<open>fieldnames\<close> of the \<open>csv.DictReader\<close> (\<open>None\<close> for a file without a header line)
  and the rows it yields. The result is the database, the value of
  \<open>_global_fieldnames\<close> and the warnings printed.
\<close>

type_synonym csv_file = "pystr list option \<times> row list"

definition load_csv_database ::
  "platform \<Rightarrow> csv_file option \<Rightarrow> error + database \<times> pystr list option \<times> warning list" where
  "load_csv_database P file =
     (case file of
        None \<Rightarrow> Inr ([], None, [])
      | Some (fieldnames, rows) \<Rightarrow>
          (case load_rows P 0 rows ([], []) of
             Inl e \<Rightarrow> Inl e
           | Inr (db, msgs) \<Rightarrow>
               Inr (db,
                    (case fieldnames of
                       None \<Rightarrow> None
                     | Some fs \<Rightarrow> if fs = [] then None else Some fs),
                    msgs)))"

text \<open>\<open>s.rjust(w, c)\<close>.\<close>

definition rjust :: "nat \<Rightarrow> nat \<Rightarrow> pystr \<Rightarrow> pystr" where
  "rjust w c s = replicate (w - length s) c @ s"

text \<open>The name part of the sort key of \<open>save_csv_database\<close> (lines 99 to 106).\<close>

definition display_key :: "platform \<Rightarrow> row \<Rightarrow> pystr" where
  "display_key P r =
     strip (lower_str P
       (py_or (get_or r (str ''sortname'') [])
         (py_or (get_or r (str ''name_overwrite'') [])
           (py_or (get_or r (str ''name_original_reference'') [])
             (py_or (get_or r (str ''itch_titlename'') []) [])))))"

text \<open>The whole key (lines 98 to 108): one string.\<close>

definition save_sort_key :: "platform \<Rightarrow> row \<Rightarrow> pystr" where
  "save_sort_key P r =
     display_key P r @ str '' '' @ rjust 10 48 (strip (get_or r (str ''id'') []))"

text \<open>
  The rows in the order \<open>save_csv_database\<close> writes them: \<open>sorted\<close> is stable, as
  \<open>sort_key\<close> is.
\<close>

definition sorted_rows :: "platform \<Rightarrow> database \<Rightarrow> row list" where
  "sorted_rows P database = sort_key (save_sort_key P) (map snd database)"

text \<open>
  The key as the specification words it, to compare: the pair of the display key and the
  canonical identity of the record, padded with zeros to ten characters.
\<close>

definition spec_sort_key :: "platform \<Rightarrow> row \<Rightarrow> pystr \<times> pystr" where
  "spec_sort_key P r = (display_key P r, rjust 10 48 (format_id (get_primary_game_id P r)))"

section \<open>Evaluation\<close>

text \<open>The defining equations that evaluate the model on a concrete input.\<close>

lemmas string_eval =
  get_or_def getitem_def py_or_def py_isspace_def strip_def ascii_lower_def ascii_upper_def
  get_primary_game_id_def
  platform_utc_def platform_plus2_def format_id_def Let_def

lemmas number_eval =
  float_truthy_def py_min_def pow2_def bit_length.simps floor_log2_def round_half_even_def
  round_binary64_def is_digit_def digits_val_def to_ascii_def c_isspace_def c_strip_def
  parse_decimal_def py_float_def py_int_def str_nat.simps str_int_def normalize_id_def

lemmas date_eval =
  civil_from_days_def zero_pad_def fromtimestamp_strftime_def

lemmas naming_eval =
  get_rom_category_def FORBIDDEN_CHARS_def create_safe_filename_def parse_ts_def ts_truthy_def
  usable_ts_def tic_dates_def overwrite_date_def itch_selected_ts_def itch_date_def select_update_date_def
  category_suffix_def apply_case_def generate_filename_and_gamename_def

lemmas store_eval =
  normalize_field_def normalize_row_def store_row_def load_csv_database_def rjust_def
  display_key_def save_sort_key_def sorted_rows_def spec_sort_key_def

section \<open>Properties of the identity resolver\<close>

text \<open>
  C1, as the claim states its last case: when the three identifier fields are all empty
  the resolver returns \<open>None\<close>. On the empty row, and on the row whose three fields are
  empty strings, the code returns the empty string instead: the claim fails there.
\<close>

theorem get_primary_game_id_empty_row_not_None:
  "get_primary_game_id platform_utc Map.empty = Some []
   \<and> get_primary_game_id platform_utc Map.empty \<noteq> None
   \<and> get_primary_game_id platform_utc
        [str ''tic_id'' \<mapsto> [], str ''itch_id'' \<mapsto> [], str ''id'' \<mapsto> []] = Some []"
  by (simp add: get_primary_game_id_def get_or_def py_or_def Let_def)

text \<open>
  C1, amended: the preferred field is \<open>tic_id\<close> when the trimmed, lower-cased
  \<open>source_with_bestversion\<close> is \<open>tic80com\<close> or empty, \<open>itch_id\<close> when it is
  \<open>itch\<close>, and \<open>id\<close> otherwise; the result is the preferred field when that is
  not empty, else the first non-empty of \<open>tic_id\<close>, \<open>itch_id\<close>, \<open>id\<close>; the result
  is always a string, and it is the empty string exactly when the three fields are all
  empty, so with one non-empty field it is a non-empty string.
\<close>

theorem get_primary_game_id_precedence:
  "(let source = lower_str P (strip (get_or r (str ''source_with_bestversion'') []));
        tic_id = get_or r (str ''tic_id'') [];
        itch_id = get_or r (str ''itch_id'') [];
        id_val = get_or r (str ''id'') [];
        preferred =
          (if source = str ''tic80com'' \<or> source = [] then tic_id
           else if source = str ''itch'' then itch_id else id_val)
    in get_primary_game_id P r =
         Some (if preferred \<noteq> [] then preferred
               else if tic_id \<noteq> [] then tic_id
               else if itch_id \<noteq> [] then itch_id
               else id_val)
       \<and> (get_primary_game_id P r = Some [] \<longleftrightarrow>
            tic_id = [] \<and> itch_id = [] \<and> id_val = [])
       \<and> (tic_id \<noteq> [] \<or> itch_id \<noteq> [] \<or> id_val \<noteq> [] \<longrightarrow>
            (\<exists>s. get_primary_game_id P r = Some s \<and> s \<noteq> [])))"
  by (auto simp: get_primary_game_id_def py_or_def Let_def)

theorem get_primary_game_id_precedence_witness:
  "get_primary_game_id platform_utc
     [str ''source_with_bestversion'' \<mapsto> 0xA0 # str '' Itch '', str ''tic_id'' \<mapsto> str ''42'',
      str ''itch_id'' \<mapsto> str ''99'']
     = Some (str ''99'')
   \<and> get_primary_game_id platform_utc
     [str ''source_with_bestversion'' \<mapsto> str ''itch'', str ''tic_id'' \<mapsto> str ''42'',
      str ''itch_id'' \<mapsto> []]
     = Some (str ''42'')"
  using get_primary_game_id_precedence
    [of platform_utc
        "[str ''source_with_bestversion'' \<mapsto> 0xA0 # str '' Itch '', str ''tic_id'' \<mapsto> str ''42'',
          str ''itch_id'' \<mapsto> str ''99'']"]
    get_primary_game_id_precedence
    [of platform_utc
        "[str ''source_with_bestversion'' \<mapsto> str ''itch'', str ''tic_id'' \<mapsto> str ''42'',
          str ''itch_id'' \<mapsto> []]"]
  by (simp add: get_or_def strip_def py_isspace_def platform_utc_def ascii_lower_def Let_def)

section \<open>Properties of the identifier normalization\<close>

text \<open>
  C9: \<open>normalize_id\<close> turns \<open>329.0\<close> into \<open>329\<close> and leaves \<open>AB12\<close> as it is, and
  it is claimed to return a value for every string. On the string \<open>inf\<close>, on every
  platform, it does not return: \<open>float\<close> gives the infinity, \<open>int\<close> raises
  \<open>OverflowError\<close>, and the \<open>except\<close> clause catches \<open>ValueError\<close> and \<open>TypeError\<close>
  only.
\<close>

theorem normalize_id_inf_raises:
  "normalize_id P (str ''inf'') = Inl OverflowError
   \<and> normalize_id P (str ''329.0'') = Inr (str ''329'')
   \<and> normalize_id P (str ''AB12'') = Inr (str ''AB12'')"
  by (simp add: string_eval number_eval cong: let_weak_cong)

end
